theory Spec2Isabelle
  imports Main "HOL-Library.Word" "HOL-Library.Multiset"
begin

section \<open>Packet mutation modules of the constraint-driven toolchain\<close>

text \<open>
  Every source file is one test-case module for the fuzzing harness. A module exports
  \<^verbatim>\<open>module_name\<close>, \<^verbatim>\<open>setup\<close>, \<^verbatim>\<open>tx_pre_dissection\<close> and \<^verbatim>\<open>tx_post_dissection\<close>. The nine
  modules have the same text except for the byte stores in the body of
  \<^verbatim>\<open>tx_post_dissection\<close>, so the hooks are modelled once and take the list of stores of the
  module as their first argument.
\<close>

subsection \<open>Data\<close>

type_synonym uint8_t = "8 word"

text \<open>
  A store through \<^verbatim>\<open>pkt_buf\<close> at an index outside the object the pointer addresses has no
  defined behaviour in C. The model makes it a fault value and stops there.
\<close>

datatype fault = OutOfBounds

text \<open>
  A filter handle, as returned by \<^verbatim>\<open>wd_filter\<close>. The type is declared in the harness header
  \<^verbatim>\<open>ModulesInclude.hpp\<close>; the model identifies a handle with the name it was compiled from.
\<close>

type_synonym wd_filter_t = string

text \<open>
  Modelled from the spec: the engine state behind \<^verbatim>\<open>ctx->wd\<close>, whose declaration in
  \<^verbatim>\<open>ModulesInclude.hpp\<close> is missing. \<open>registered\<close> holds the filters registered for the
  packet in flight, \<open>dissection\<close> the outcome of the decode step: \<open>None\<close> when decoding
  failed, otherwise the names of the filters that the decoded tree satisfies.
\<close>

record wd_t =
  registered :: "wd_filter_t list"
  dissection :: "wd_filter_t list option"

text \<open>
  The shared configuration \<^verbatim>\<open>ctx->config\<close>. The modules touch the single field
  \<^verbatim>\<open>fuzzing.global_timeout\<close>; all remaining fields of the structure are kept together in
  \<open>other_fields\<close>, of a type the model leaves open.
\<close>

record 'c config_t =
  fuzzing_global_timeout :: bool
  other_fields :: 'c

record 'c wd_modules_ctx_t =
  config :: "'c config_t"
  wd :: wd_t

text \<open>
  Everything a hook can read or change besides the packet: the module's global \<^verbatim>\<open>f1\<close>,
  the context behind \<^verbatim>\<open>ctx\<close>, the names passed to \<^verbatim>\<open>wd_filter\<close> so far (one entry per
  call), and the lines written by \<^verbatim>\<open>wd_log_y\<close>.
\<close>

record 'c world =
  f1 :: wd_filter_t
  ctx :: "'c wd_modules_ctx_t"
  compiled :: "string list"
  log_lines :: "string list"

subsection \<open>Harness services\<close>

text \<open>
  The four services below belong to the harness; the modules call them and the sources do
  not contain them.
\<close>

text \<open>
  Modelled from the spec: \<^verbatim>\<open>wd_filter\<close>, missing from the sources, compiles a filter name
  into a handle. Each call is recorded in \<open>compiled\<close>. The modules never test the handle
  they get.
\<close>

definition wd_filter :: "string \<Rightarrow> 'c world \<Rightarrow> wd_filter_t \<times> 'c world" where
  "wd_filter name s = (name, s\<lparr>compiled := compiled s @ [name]\<rparr>)"

text \<open>
  Modelled from the spec: \<^verbatim>\<open>wd_register_filter\<close>, missing from the sources, marks a filter
  active for the decode of the packet in flight; registering a filter twice has no
  further effect.
\<close>

definition wd_register_filter :: "wd_t \<Rightarrow> wd_filter_t \<Rightarrow> wd_t" where
  "wd_register_filter w f = w\<lparr>registered := List.insert f (registered w)\<rparr>"

text \<open>
  Modelled from the spec: \<^verbatim>\<open>wd_read_filter\<close>, missing from the sources, tells whether the
  decoded tree holds a node satisfying a registered filter. After a failed decode every
  query is false.
\<close>

definition wd_read_filter :: "wd_t \<Rightarrow> wd_filter_t \<Rightarrow> bool" where
  "wd_read_filter w f =
     (case dissection w of
        None \<Rightarrow> False
      | Some matching \<Rightarrow> f \<in> set (registered w) \<and> f \<in> set matching)"

text \<open>
  Modelled from the spec: \<^verbatim>\<open>wd_log_y\<close>, missing from the sources, writes one line of log
  output.
\<close>

definition wd_log_y :: "string \<Rightarrow> 'c world \<Rightarrow> 'c world" where
  "wd_log_y msg s = s\<lparr>log_lines := log_lines s @ [msg]\<rparr>"

subsection \<open>Byte stores\<close>

text \<open>
  One assignment \<^verbatim>\<open>pkt_buf[i] = v\<close>. The index is a C \<^verbatim>\<open>int\<close> expression; the list
  \<open>pkt_buf\<close> is the object the pointer addresses. No hook compares the index with
  \<^verbatim>\<open>pkt_length\<close>.
\<close>

definition store :: "uint8_t list \<Rightarrow> int \<Rightarrow> uint8_t \<Rightarrow> fault + uint8_t list" where
  "store pkt_buf i v =
     (if 0 \<le> i \<and> i < int (length pkt_buf) then Inr (pkt_buf[nat i := v])
      else Inl OutOfBounds)"

text \<open>A straight-line sequence of such assignments, executed from first to last.\<close>

fun stores :: "(int \<times> uint8_t) list \<Rightarrow> uint8_t list \<Rightarrow> fault + uint8_t list" where
  "stores [] pkt_buf = Inr pkt_buf"
| "stores ((i, v) # rest) pkt_buf =
     (case store pkt_buf i v of
        Inl e \<Rightarrow> Inl e
      | Inr pkt_buf' \<Rightarrow> stores rest pkt_buf')"

subsection \<open>The hooks\<close>

text \<open>
  The four exported functions. A hook takes the world and returns it with its result;
  the two packet hooks take and return the bytes behind \<^verbatim>\<open>pkt_buf\<close> as well. In
  \<^verbatim>\<open>tx_post_dissection\<close> the argument \<open>body\<close> is the list of assignments
  \<^verbatim>\<open>pkt_buf[i] = v\<close> between the log call and \<^verbatim>\<open>return 1\<close>, the one part in which the
  modules differ.
\<close>

definition "module_name" :: "'c world \<Rightarrow> string \<times> 'c world" where
  "module_name s = (''Mediatek'', s)"

definition "setup" :: "'c world \<Rightarrow> int \<times> 'c world" where
  "setup s =
     (let s1 = s\<lparr>ctx := (ctx s)\<lparr>config := (config (ctx s))\<lparr>fuzzing_global_timeout := False\<rparr>\<rparr>\<rparr>;
          (f, s2) = wd_filter ''nr-rrc.rrcSetup_element'' s1
      in (0, s2\<lparr>f1 := f\<rparr>))"

definition tx_pre_dissection ::
  "uint8_t list \<Rightarrow> int \<Rightarrow> 'c world \<Rightarrow> int \<times> uint8_t list \<times> 'c world" where
  "tx_pre_dissection pkt_buf pkt_length s =
     (0, pkt_buf, s\<lparr>ctx := (ctx s)\<lparr>wd := wd_register_filter (wd (ctx s)) (f1 s)\<rparr>\<rparr>)"

definition tx_post_dissection ::
  "(int \<times> uint8_t) list \<Rightarrow> uint8_t list \<Rightarrow> int \<Rightarrow> 'c world
     \<Rightarrow> fault + (int \<times> uint8_t list \<times> 'c world)" where
  "tx_post_dissection body pkt_buf pkt_length s =
     (if wd_read_filter (wd (ctx s)) (f1 s) then
        (let s' = wd_log_y ''Malformed rrc setup sent!'' s
         in case stores body pkt_buf of
              Inl e \<Rightarrow> Inl e
            | Inr pkt_buf' \<Rightarrow> Inr (1, pkt_buf', s'))
      else Inr (0, pkt_buf, s))"

subsection \<open>The modules\<close>

text \<open>The 3 stores of \<^verbatim>\<open>mac_sch_f71_f247.cpp\<close> in
  \<^verbatim>\<open>src/A2_constraintdriven_toolchain/archive_toolchain6_generate_OTA_testcase/inter-IE/output/06_payloads\<close>.\<close>

definition mac_sch_f71_f247 :: "(int \<times> uint8_t) list" where
  "mac_sch_f71_f247 = [
    (123 - 48, 0x09), (266 - 48, 0x6d), (267 - 48, 0x84)]"

text \<open>The 36 stores of \<^verbatim>\<open>mac_sch_865_mut2.cpp\<close> in
  \<^verbatim>\<open>src/A2_constraintdriven_toolchain/camera-ready_experiment/compiled_new_value_range/c1_compiled_value_range\<close>.\<close>

definition mac_sch_865_mut2 :: "(int \<times> uint8_t) list" where
  "mac_sch_865_mut2 = [
    (74 - 48, 0x9a), (701 - 48, 0x07), (702 - 48, 0x88), (703 - 48, 0x11), (704 - 48, 0xc6),
    (705 - 48, 0x3f), (706 - 48, 0x03), (707 - 48, 0x44), (708 - 48, 0x00), (709 - 48, 0x60),
    (710 - 48, 0x22), (711 - 48, 0x02), (712 - 48, 0x04), (713 - 48, 0x0a), (714 - 48, 0x98),
    (715 - 48, 0x2d), (716 - 48, 0x06), (717 - 48, 0x0c), (718 - 48, 0x69), (719 - 48, 0x00),
    (720 - 48, 0xe3), (721 - 48, 0x04), (722 - 48, 0x71), (723 - 48, 0x8f), (724 - 48, 0xc0),
    (725 - 48, 0xd1), (726 - 48, 0x00), (727 - 48, 0x1a), (728 - 48, 0x0c), (729 - 48, 0x80),
    (730 - 48, 0x81), (731 - 48, 0x82), (732 - 48, 0xa6), (733 - 48, 0x00), (734 - 48, 0x3f),
    (735 - 48, 0x00)]"

text \<open>The 55 stores of \<^verbatim>\<open>mac_sch_csi_IM_ResourcesForInterference_offset.cpp\<close> in
  \<^verbatim>\<open>src/A2_constraintdriven_toolchain/camera-ready_experiment/compiled_our_approach/c2_compiled_presence_payloads\<close>.\<close>

definition mac_sch_csi_IM_ResourcesForInterference_offset :: "(int \<times> uint8_t) list" where
  "mac_sch_csi_IM_ResourcesForInterference_offset = [
    (74 - 48, 0x8a), (679 - 48, 0x86), (682 - 48, 0x40), (683 - 48, 0x38), (684 - 48, 0x41),
    (685 - 48, 0x1c), (686 - 48, 0x63), (687 - 48, 0xf0), (688 - 48, 0x34), (689 - 48, 0x40),
    (690 - 48, 0x05), (691 - 48, 0x81), (692 - 48, 0x20), (693 - 48, 0x20), (694 - 48, 0x20),
    (695 - 48, 0xa9), (696 - 48, 0x80), (697 - 48, 0xd0), (698 - 48, 0x40), (699 - 48, 0x88),
    (700 - 48, 0x07), (701 - 48, 0x10), (702 - 48, 0x23), (703 - 48, 0x8c), (704 - 48, 0x7e),
    (705 - 48, 0x06), (706 - 48, 0x88), (707 - 48, 0x00), (708 - 48, 0xc0), (709 - 48, 0x44),
    (710 - 48, 0x04), (711 - 48, 0x08), (712 - 48, 0x15), (713 - 48, 0x30), (714 - 48, 0x1a),
    (715 - 48, 0x0c), (716 - 48, 0x19), (717 - 48, 0x00), (718 - 48, 0xe3), (719 - 48, 0x04),
    (720 - 48, 0x71), (721 - 48, 0x8f), (722 - 48, 0xc0), (723 - 48, 0xd1), (724 - 48, 0x00),
    (725 - 48, 0x1a), (726 - 48, 0x0c), (727 - 48, 0x80), (728 - 48, 0x81), (729 - 48, 0x82),
    (730 - 48, 0xa6), (731 - 48, 0x00), (732 - 48, 0x3f), (733 - 48, 0x00), (735 - 48, 0x00)]"

text \<open>The 88 stores of \<^verbatim>\<open>mac_sch_767_mut11.cpp\<close> in
  \<^verbatim>\<open>src/A2_constraintdriven_toolchain/camera-ready_experiment/new_c1_include_boudary_smart_sample/new_value_range/output/06_payloads\<close>.\<close>

definition mac_sch_767_mut11 :: "(int \<times> uint8_t) list" where
  "mac_sch_767_mut11 = [
    (639 - 48, 0x0b), (640 - 48, 0x0a), (641 - 48, 0x04), (644 - 48, 0x08), (645 - 48, 0x08),
    (646 - 48, 0x20), (647 - 48, 0x20), (650 - 48, 0x00), (651 - 48, 0x81), (652 - 48, 0x52),
    (653 - 48, 0x01), (654 - 48, 0x80), (655 - 48, 0x50), (657 - 48, 0x60), (658 - 48, 0xb8),
    (660 - 48, 0x61), (661 - 48, 0x62), (662 - 48, 0x02), (663 - 48, 0x80), (664 - 48, 0x90),
    (665 - 48, 0x02), (666 - 48, 0xa0), (667 - 48, 0xc8), (668 - 48, 0x02), (669 - 48, 0xa1),
    (670 - 48, 0x72), (671 - 48, 0x03), (672 - 48, 0x80), (673 - 48, 0xd0), (674 - 48, 0x04),
    (675 - 48, 0xe0), (676 - 48, 0xd8), (677 - 48, 0x04), (678 - 48, 0xe1), (679 - 48, 0x4b),
    (680 - 48, 0x40), (681 - 48, 0x81), (682 - 48, 0x16), (683 - 48, 0x40), (684 - 48, 0x38),
    (685 - 48, 0x41), (686 - 48, 0x1c), (687 - 48, 0x63), (688 - 48, 0xf0), (689 - 48, 0x34),
    (690 - 48, 0x40), (691 - 48, 0x05), (692 - 48, 0x81), (693 - 48, 0x20), (694 - 48, 0x20),
    (695 - 48, 0x20), (696 - 48, 0xa9), (697 - 48, 0x82), (698 - 48, 0xd0), (699 - 48, 0x40),
    (700 - 48, 0x86), (701 - 48, 0x10), (702 - 48, 0x0e), (703 - 48, 0x20), (704 - 48, 0x47),
    (705 - 48, 0x18), (706 - 48, 0xfc), (707 - 48, 0x0d), (708 - 48, 0x10), (709 - 48, 0x01),
    (710 - 48, 0x80), (711 - 48, 0x88), (712 - 48, 0x08), (713 - 48, 0x10), (714 - 48, 0x2a),
    (715 - 48, 0x60), (716 - 48, 0xb4), (717 - 48, 0x18), (718 - 48, 0x31), (719 - 48, 0xa4),
    (720 - 48, 0x03), (721 - 48, 0x8c), (722 - 48, 0x11), (723 - 48, 0xc6), (724 - 48, 0x3f),
    (725 - 48, 0x03), (726 - 48, 0x44), (728 - 48, 0x68), (729 - 48, 0x32), (730 - 48, 0x02),
    (731 - 48, 0x06), (732 - 48, 0x0a), (733 - 48, 0x98)]"

text \<open>The 36 stores of \<^verbatim>\<open>mac_sch_865_mut4.cpp\<close> in
  \<^verbatim>\<open>src/A2_constraintdriven_toolchain/camera-ready_experiment/new_c1_include_boudary_smart_sample/new_value_range/output/06_payloads\<close>.\<close>

definition mac_sch_865_mut4 :: "(int \<times> uint8_t) list" where
  "mac_sch_865_mut4 = [
    (74 - 48, 0x9a), (701 - 48, 0x0d), (702 - 48, 0xc4), (703 - 48, 0x08), (704 - 48, 0xe3),
    (705 - 48, 0x1f), (706 - 48, 0x81), (707 - 48, 0xa2), (708 - 48, 0x00), (709 - 48, 0x30),
    (710 - 48, 0x11), (711 - 48, 0x01), (712 - 48, 0x02), (713 - 48, 0x05), (714 - 48, 0x4c),
    (715 - 48, 0x16), (716 - 48, 0x83), (717 - 48, 0x06), (718 - 48, 0x34), (719 - 48, 0x80),
    (720 - 48, 0x71), (721 - 48, 0x82), (722 - 48, 0x38), (723 - 48, 0xc7), (724 - 48, 0xe0),
    (725 - 48, 0x68), (726 - 48, 0x80), (727 - 48, 0x0d), (728 - 48, 0x06), (729 - 48, 0x40),
    (730 - 48, 0x40), (731 - 48, 0xc1), (732 - 48, 0x53), (733 - 48, 0x00), (734 - 48, 0x3f),
    (735 - 48, 0x00)]"

text \<open>The 15 stores of \<^verbatim>\<open>mac_sch_904_mut8.cpp\<close> in
  \<^verbatim>\<open>src/A2_constraintdriven_toolchain/camera-ready_experiment/new_c1_include_boudary_smart_sample/new_value_range/output/06_payloads\<close>.\<close>

definition mac_sch_904_mut8 :: "(int \<times> uint8_t) list" where
  "mac_sch_904_mut8 = [
    (719 - 48, 0x47), (720 - 48, 0x0e), (721 - 48, 0x30), (722 - 48, 0x47), (723 - 48, 0x18),
    (724 - 48, 0xfc), (725 - 48, 0x0d), (726 - 48, 0x10), (727 - 48, 0x01), (728 - 48, 0xa0),
    (729 - 48, 0xc8), (730 - 48, 0x08), (731 - 48, 0x18), (732 - 48, 0x2a), (733 - 48, 0x60)]"

text \<open>The 160 stores of \<^verbatim>\<open>mac_sch_678_mut3.cpp\<close> in
  \<^verbatim>\<open>src/A2_constraintdriven_toolchain/camera-ready_experiment/new_c1_include_boudary_smart_sample/new_value_range/output/c1_compiled_value_range\<close>.\<close>

definition mac_sch_678_mut3 :: "(int \<times> uint8_t) list" where
  "mac_sch_678_mut3 = [
    (74 - 48, 0x9a), (568 - 48, 0x20), (569 - 48, 0x80), (570 - 48, 0xa0), (571 - 48, 0x00),
    (572 - 48, 0x72), (573 - 48, 0xa0), (574 - 48, 0xa0), (575 - 48, 0x0c), (576 - 48, 0x45),
    (577 - 48, 0x55), (578 - 48, 0x50), (579 - 48, 0x02), (580 - 48, 0x70), (581 - 48, 0x03),
    (582 - 48, 0x04), (583 - 48, 0xea), (584 - 48, 0x80), (585 - 48, 0x0a), (586 - 48, 0x88),
    (587 - 48, 0x40), (588 - 48, 0x0a), (589 - 48, 0x00), (591 - 48, 0xe0), (592 - 48, 0x26),
    (593 - 48, 0x09), (594 - 48, 0xd5), (595 - 48, 0x00), (596 - 48, 0x07), (597 - 48, 0x10),
    (598 - 48, 0x80), (599 - 48, 0x14), (600 - 48, 0x14), (601 - 48, 0x01), (602 - 48, 0xc0),
    (603 - 48, 0x8c), (604 - 48, 0x13), (605 - 48, 0xaa), (606 - 48, 0x00), (608 - 48, 0x21),
    (609 - 48, 0x00), (610 - 48, 0x28), (611 - 48, 0x50), (612 - 48, 0x00), (613 - 48, 0x40),
    (617 - 48, 0x08), (618 - 48, 0x00), (619 - 48, 0x20), (620 - 48, 0x10), (621 - 48, 0x00),
    (622 - 48, 0x42), (623 - 48, 0x70), (624 - 48, 0x5d), (625 - 48, 0x00), (626 - 48, 0x15),
    (627 - 48, 0x28), (628 - 48, 0x01), (629 - 48, 0xc3), (630 - 48, 0x74), (631 - 48, 0x00),
    (632 - 48, 0x1c), (633 - 48, 0xa0), (634 - 48, 0xa7), (635 - 48, 0x15), (636 - 48, 0xd0),
    (637 - 48, 0x00), (638 - 48, 0x02), (639 - 48, 0x85), (640 - 48, 0x02), (641 - 48, 0x00),
    (643 - 48, 0x04), (644 - 48, 0x04), (646 - 48, 0x10), (647 - 48, 0x00), (650 - 48, 0x40),
    (651 - 48, 0xa9), (652 - 48, 0x00), (653 - 48, 0xc0), (654 - 48, 0x28), (655 - 48, 0x00),
    (656 - 48, 0x30), (657 - 48, 0x5c), (658 - 48, 0x00), (659 - 48, 0x30), (660 - 48, 0xb1),
    (661 - 48, 0x01), (662 - 48, 0x40), (663 - 48, 0x48), (664 - 48, 0x01), (665 - 48, 0x50),
    (666 - 48, 0x64), (667 - 48, 0x01), (668 - 48, 0x50), (669 - 48, 0xb9), (670 - 48, 0x01),
    (671 - 48, 0xc0), (672 - 48, 0x68), (673 - 48, 0x02), (674 - 48, 0x70), (675 - 48, 0x6c),
    (676 - 48, 0x02), (677 - 48, 0x70), (678 - 48, 0xa5), (679 - 48, 0xa0), (680 - 48, 0x40),
    (681 - 48, 0x8b), (682 - 48, 0x20), (683 - 48, 0x1c), (684 - 48, 0x20), (685 - 48, 0x8e),
    (686 - 48, 0x31), (687 - 48, 0xf8), (688 - 48, 0x1a), (689 - 48, 0x20), (690 - 48, 0x02),
    (691 - 48, 0xc0), (692 - 48, 0x90), (693 - 48, 0x10), (694 - 48, 0x10), (695 - 48, 0x54),
    (696 - 48, 0xc1), (697 - 48, 0x68), (698 - 48, 0x20), (699 - 48, 0x43), (700 - 48, 0x08),
    (701 - 48, 0x07), (702 - 48, 0x10), (703 - 48, 0x23), (704 - 48, 0x8c), (705 - 48, 0x7e),
    (706 - 48, 0x06), (707 - 48, 0x88), (708 - 48, 0x00), (709 - 48, 0xc0), (710 - 48, 0x44),
    (711 - 48, 0x04), (712 - 48, 0x08), (713 - 48, 0x15), (714 - 48, 0x30), (715 - 48, 0x5a),
    (716 - 48, 0x0c), (717 - 48, 0x18), (718 - 48, 0xd2), (719 - 48, 0x01), (720 - 48, 0xc6),
    (721 - 48, 0x08), (722 - 48, 0xe3), (723 - 48, 0x1f), (724 - 48, 0x81), (725 - 48, 0xa2),
    (726 - 48, 0x00), (727 - 48, 0x34), (728 - 48, 0x19), (729 - 48, 0x01), (730 - 48, 0x03),
    (731 - 48, 0x05), (732 - 48, 0x4c), (733 - 48, 0x00), (734 - 48, 0x3f), (735 - 48, 0x00)]"

text \<open>The 2 stores of \<^verbatim>\<open>mac_sch_787_mut3.cpp\<close> in
  \<^verbatim>\<open>src/A2_constraintdriven_toolchain/camera-ready_experiment/new_c1_include_boudary_smart_sample/new_value_range/output/c1_compiled_value_range\<close>.\<close>

definition mac_sch_787_mut3 :: "(int \<times> uint8_t) list" where
  "mac_sch_787_mut3 = [
    (657 - 48, 0xcf), (658 - 48, 0xf0)]"

text \<open>The 22 stores of \<^verbatim>\<open>mac_sch_889_mut9.cpp\<close> in
  \<^verbatim>\<open>src/A2_constraintdriven_toolchain/camera-ready_experiment/new_c1_include_boudary_smart_sample/new_value_range/output/c1_compiled_value_range\<close>.\<close>

definition mac_sch_889_mut9 :: "(int \<times> uint8_t) list" where
  "mac_sch_889_mut9 = [
    (711 - 48, 0x12), (712 - 48, 0x08), (713 - 48, 0x10), (714 - 48, 0x2a), (715 - 48, 0x60),
    (716 - 48, 0xb4), (717 - 48, 0x18), (718 - 48, 0x31), (719 - 48, 0xa4), (720 - 48, 0x03),
    (721 - 48, 0x8c), (722 - 48, 0x11), (723 - 48, 0xc6), (724 - 48, 0x3f), (725 - 48, 0x03),
    (726 - 48, 0x44), (728 - 48, 0x68), (729 - 48, 0x32), (730 - 48, 0x02), (731 - 48, 0x06),
    (732 - 48, 0x0a), (733 - 48, 0x98)]"

text \<open>The nine modules of the corpus, each given by its stores.\<close>

definition modules :: "(int \<times> uint8_t) list list" where
  "modules = [mac_sch_f71_f247,
     mac_sch_865_mut2,
     mac_sch_csi_IM_ResourcesForInterference_offset,
     mac_sch_767_mut11,
     mac_sch_865_mut4,
     mac_sch_904_mut8,
     mac_sch_678_mut3,
     mac_sch_787_mut3,
     mac_sch_889_mut9]"

subsection \<open>Sample contexts\<close>

text \<open>
  Three states of the world after \<^verbatim>\<open>setup\<close> and \<^verbatim>\<open>tx_pre_dissection\<close> have run and the
  decode step is over: the decoded tree holds an \<^verbatim>\<open>rrcSetup\<close> element, it holds none, and
  decoding failed.
\<close>

definition world_matched :: "unit world" where
  "world_matched =
     \<lparr>f1 = ''nr-rrc.rrcSetup_element'',
      ctx = \<lparr>config = \<lparr>fuzzing_global_timeout = False, other_fields = ()\<rparr>,
             wd = \<lparr>registered = [''nr-rrc.rrcSetup_element''],
                   dissection = Some [''nr-rrc.rrcSetup_element'']\<rparr>\<rparr>,
      compiled = [''nr-rrc.rrcSetup_element''],
      log_lines = []\<rparr>"

definition world_unmatched :: "unit world" where
  "world_unmatched =
     \<lparr>f1 = ''nr-rrc.rrcSetup_element'',
      ctx = \<lparr>config = \<lparr>fuzzing_global_timeout = False, other_fields = ()\<rparr>,
             wd = \<lparr>registered = [''nr-rrc.rrcSetup_element''],
                   dissection = Some [''nr-rrc.rrcReject_element'']\<rparr>\<rparr>,
      compiled = [''nr-rrc.rrcSetup_element''],
      log_lines = []\<rparr>"

definition world_undecoded :: "unit world" where
  "world_undecoded =
     \<lparr>f1 = ''nr-rrc.rrcSetup_element'',
      ctx = \<lparr>config = \<lparr>fuzzing_global_timeout = False, other_fields = ()\<rparr>,
             wd = \<lparr>registered = [''nr-rrc.rrcSetup_element''],
                   dissection = None\<rparr>\<rparr>,
      compiled = [''nr-rrc.rrcSetup_element''],
      log_lines = []\<rparr>"

section \<open>Properties of a sequence of stores\<close>

lemma store_Inr_iff:
  "store B i v = Inr B' \<longleftrightarrow> 0 \<le> i \<and> i < int (length B) \<and> B' = B[nat i := v]"
  by (auto simp: store_def)

lemma stores_fault: "stores P B = Inl e \<Longrightarrow> e = OutOfBounds"
  by (cases e) simp

lemma stores_length: "stores P B = Inr B' \<Longrightarrow> length B' = length B"
proof (induction P arbitrary: B)
  case Nil
  then show ?case by simp
next
  case (Cons p P)
  obtain i v where p: "p = (i, v)" by (cases p)
  from Cons.prems p obtain B1 where B1: "store B i v = Inr B1" and rest: "stores P B1 = Inr B'"
    by (auto split: sum.splits)
  from B1 have "length B1 = length B" by (auto simp: store_Inr_iff)
  with Cons.IH [OF rest] show ?case by simp
qed

text \<open>The sequence runs to its end exactly when every index lies inside the object.\<close>

lemma stores_defined:
  "(\<exists>B'. stores P B = Inr B') \<longleftrightarrow> (\<forall>(i, v) \<in> set P. 0 \<le> i \<and> i < int (length B))"
proof (induction P arbitrary: B)
  case Nil
  then show ?case by simp
next
  case (Cons p P)
  obtain i v where p: "p = (i, v)" by (cases p)
  show ?case
  proof (cases "0 \<le> i \<and> i < int (length B)")
    case True
    then have "store B i v = Inr (B[nat i := v])" by (simp add: store_def)
    with Cons.IH [of "B[nat i := v]"] True p show ?thesis by simp
  next
    case False
    then have "store B i v = Inl OutOfBounds" by (simp add: store_def)
    with False p show ?thesis by auto
  qed
qed

lemma stores_undefined:
  assumes "\<not> (\<forall>(i, v) \<in> set P. 0 \<le> i \<and> i < int (length B))"
  shows "stores P B = Inl OutOfBounds"
proof (cases "stores P B")
  case (Inl e)
  then show ?thesis using stores_fault [of P B e] by simp
next
  case (Inr B')
  then have "\<exists>B'. stores P B = Inr B'" by blast
  with assms show ?thesis by (simp only: stores_defined)
qed

text \<open>With every index inside the object the sequence is the chain of list updates.\<close>

lemma stores_fold:
  "\<forall>(i, v) \<in> set P. 0 \<le> i \<and> i < int (length B) \<Longrightarrow>
     stores P B = Inr (fold (\<lambda>(i, v) b. b[nat i := v]) P B)"
proof (induction P arbitrary: B)
  case Nil
  then show ?case by simp
next
  case (Cons p P)
  obtain i v where p: "p = (i, v)" by (cases p)
  from Cons.prems p have here: "store B i v = Inr (B[nat i := v])"
    by (simp add: store_def)
  from Cons.prems have "\<forall>(i', v') \<in> set P. 0 \<le> i' \<and> i' < int (length (B[nat i := v]))"
    by simp
  from Cons.IH [OF this] here p show ?case by simp
qed

text \<open>
  The byte found at an index afterwards: the value of the last store to that index, or the
  old byte when no store names the index.
\<close>

lemma stores_nth:
  "stores P B = Inr B' \<Longrightarrow> j < length B \<Longrightarrow>
     B' ! j = (case map_of (rev P) (int j) of Some v \<Rightarrow> v | None \<Rightarrow> B ! j)"
proof (induction P arbitrary: B)
  case Nil
  then show ?case by simp
next
  case (Cons p P)
  obtain i v where p: "p = (i, v)" by (cases p)
  from Cons.prems p have rng: "0 \<le> i" "i < int (length B)"
    and rest: "stores P (B[nat i := v]) = Inr B'"
    by (auto simp: store_def split: if_splits)
  from Cons.prems have j: "j < length (B[nat i := v])" by simp
  have IH: "B' ! j = (case map_of (rev P) (int j) of Some w \<Rightarrow> w | None \<Rightarrow> B[nat i := v] ! j)"
    by (rule Cons.IH [OF rest j])
  show ?case
  proof (cases "map_of (rev P) (int j)")
    case None
    with IH p rng Cons.prems(2) show ?thesis
      by (auto simp: map_add_def nth_list_update)
  next
    case (Some w)
    with IH p show ?thesis by (simp add: map_add_def)
  qed
qed

lemma stores_twice:
  assumes "stores P B = Inr B'"
  shows "stores P B' = Inr B'"
proof -
  have len: "length B' = length B" by (rule stores_length [OF assms])
  from assms have "\<exists>C. stores P B = Inr C" by blast
  then have "\<forall>(i, v) \<in> set P. 0 \<le> i \<and> i < int (length B')"
    by (simp only: stores_defined len)
  then have "\<exists>C. stores P B' = Inr C" by (simp only: stores_defined)
  then obtain C where C: "stores P B' = Inr C" by blast
  have "C = B'"
  proof (rule nth_equalityI)
    show "length C = length B'" by (rule stores_length [OF C])
  next
    fix j assume "j < length C"
    then have j: "j < length B'" using stores_length [OF C] by simp
    then have jB: "j < length B" using len by simp
    show "C ! j = B' ! j"
      using stores_nth [OF C j] stores_nth [OF assms jB]
      by (cases "map_of (rev P) (int j)") simp_all
  qed
  with C show ?thesis by simp
qed

text \<open>Stores to pairwise different indices may run in any order.\<close>

lemma stores_reordered:
  assumes dist: "distinct (map fst P)" and perm: "mset P' = mset P"
  shows "stores P' B = stores P B"
proof -
  from perm have sets: "set P' = set P" by (rule mset_eq_setD)
  from perm have "mset (map fst P') = mset (map fst P)" by simp
  with dist have dist': "distinct (map fst P')" by (metis mset_eq_imp_distinct_iff)
  have maps: "map_of (rev P') = map_of (rev P)"
    using dist dist' sets
    by (intro map_of_inject_set [THEN iffD2]) (simp_all add: rev_map [symmetric])
  show ?thesis
  proof (cases "\<forall>(i, v) \<in> set P. 0 \<le> i \<and> i < int (length B)")
    case False
    then have "stores P B = Inl OutOfBounds" by (rule stores_undefined)
    moreover from False sets have "stores P' B = Inl OutOfBounds"
      by (intro stores_undefined) simp
    ultimately show ?thesis by simp
  next
    case True
    then have "\<exists>C. stores P B = Inr C" by (simp only: stores_defined)
    then obtain C where C: "stores P B = Inr C" by blast
    from True sets have "\<exists>C'. stores P' B = Inr C'" by (simp only: stores_defined)
    then obtain C' where C': "stores P' B = Inr C'" by blast
    have "C' = C"
    proof (rule nth_equalityI)
      show "length C' = length C"
        using stores_length [OF C] stores_length [OF C'] by simp
    next
      fix j assume "j < length C'"
      then have j: "j < length B" using stores_length [OF C'] by simp
      show "C' ! j = C ! j"
        using stores_nth [OF C j] stores_nth [OF C' j] maps by simp
    qed
    with C C' show ?thesis by simp
  qed
qed

section \<open>The stores of the nine modules\<close>

lemma increasing_Cons2:
  "sorted_wrt (<) ((i::int) # j # rest) \<longleftrightarrow> i < j \<and> sorted_wrt (<) (j # rest)"
  by (rule sorted_wrt2) simp

lemma mac_sch_f71_f247_increasing: "sorted_wrt (<) (map fst mac_sch_f71_f247)"
  unfolding mac_sch_f71_f247_def list.map fst_conv
  by (simp only: increasing_Cons2 sorted_wrt1) simp

lemma mac_sch_f71_f247_bounds: "\<forall>i \<in> set (map fst mac_sch_f71_f247). 26 \<le> i \<and> i \<le> 687"
  unfolding mac_sch_f71_f247_def list.map fst_conv
  by simp

lemma mac_sch_865_mut2_increasing: "sorted_wrt (<) (map fst mac_sch_865_mut2)"
  unfolding mac_sch_865_mut2_def list.map fst_conv
  by (simp only: increasing_Cons2 sorted_wrt1) simp

lemma mac_sch_865_mut2_bounds: "\<forall>i \<in> set (map fst mac_sch_865_mut2). 26 \<le> i \<and> i \<le> 687"
  unfolding mac_sch_865_mut2_def list.map fst_conv
  by simp

lemma mac_sch_csi_IM_ResourcesForInterference_offset_increasing: "sorted_wrt (<) (map fst mac_sch_csi_IM_ResourcesForInterference_offset)"
  unfolding mac_sch_csi_IM_ResourcesForInterference_offset_def list.map fst_conv
  by (simp only: increasing_Cons2 sorted_wrt1) simp

lemma mac_sch_csi_IM_ResourcesForInterference_offset_bounds: "\<forall>i \<in> set (map fst mac_sch_csi_IM_ResourcesForInterference_offset). 26 \<le> i \<and> i \<le> 687"
  unfolding mac_sch_csi_IM_ResourcesForInterference_offset_def list.map fst_conv
  by simp

lemma mac_sch_767_mut11_increasing: "sorted_wrt (<) (map fst mac_sch_767_mut11)"
  unfolding mac_sch_767_mut11_def list.map fst_conv
  by (simp only: increasing_Cons2 sorted_wrt1) simp

lemma mac_sch_767_mut11_bounds: "\<forall>i \<in> set (map fst mac_sch_767_mut11). 26 \<le> i \<and> i \<le> 687"
  unfolding mac_sch_767_mut11_def list.map fst_conv
  by simp

lemma mac_sch_865_mut4_increasing: "sorted_wrt (<) (map fst mac_sch_865_mut4)"
  unfolding mac_sch_865_mut4_def list.map fst_conv
  by (simp only: increasing_Cons2 sorted_wrt1) simp

lemma mac_sch_865_mut4_bounds: "\<forall>i \<in> set (map fst mac_sch_865_mut4). 26 \<le> i \<and> i \<le> 687"
  unfolding mac_sch_865_mut4_def list.map fst_conv
  by simp

lemma mac_sch_904_mut8_increasing: "sorted_wrt (<) (map fst mac_sch_904_mut8)"
  unfolding mac_sch_904_mut8_def list.map fst_conv
  by (simp only: increasing_Cons2 sorted_wrt1) simp

lemma mac_sch_904_mut8_bounds: "\<forall>i \<in> set (map fst mac_sch_904_mut8). 26 \<le> i \<and> i \<le> 687"
  unfolding mac_sch_904_mut8_def list.map fst_conv
  by simp

lemma mac_sch_678_mut3_increasing: "sorted_wrt (<) (map fst mac_sch_678_mut3)"
  unfolding mac_sch_678_mut3_def list.map fst_conv
  by (simp only: increasing_Cons2 sorted_wrt1) simp

lemma mac_sch_678_mut3_bounds: "\<forall>i \<in> set (map fst mac_sch_678_mut3). 26 \<le> i \<and> i \<le> 687"
  unfolding mac_sch_678_mut3_def list.map fst_conv
  by simp

lemma mac_sch_787_mut3_increasing: "sorted_wrt (<) (map fst mac_sch_787_mut3)"
  unfolding mac_sch_787_mut3_def list.map fst_conv
  by (simp only: increasing_Cons2 sorted_wrt1) simp

lemma mac_sch_787_mut3_bounds: "\<forall>i \<in> set (map fst mac_sch_787_mut3). 26 \<le> i \<and> i \<le> 687"
  unfolding mac_sch_787_mut3_def list.map fst_conv
  by simp

lemma mac_sch_889_mut9_increasing: "sorted_wrt (<) (map fst mac_sch_889_mut9)"
  unfolding mac_sch_889_mut9_def list.map fst_conv
  by (simp only: increasing_Cons2 sorted_wrt1) simp

lemma mac_sch_889_mut9_bounds: "\<forall>i \<in> set (map fst mac_sch_889_mut9). 26 \<le> i \<and> i \<le> 687"
  unfolding mac_sch_889_mut9_def list.map fst_conv
  by simp

lemma modules_increasing: "T \<in> set modules \<Longrightarrow> sorted_wrt (<) (map fst T)"
  unfolding modules_def
  using mac_sch_f71_f247_increasing
    mac_sch_865_mut2_increasing
    mac_sch_csi_IM_ResourcesForInterference_offset_increasing
    mac_sch_767_mut11_increasing
    mac_sch_865_mut4_increasing
    mac_sch_904_mut8_increasing
    mac_sch_678_mut3_increasing
    mac_sch_787_mut3_increasing
    mac_sch_889_mut9_increasing
  by auto

lemma modules_bounds: "T \<in> set modules \<Longrightarrow> \<forall>i \<in> set (map fst T). 26 \<le> i \<and> i \<le> 687"
  unfolding modules_def
  using mac_sch_f71_f247_bounds
    mac_sch_865_mut2_bounds
    mac_sch_csi_IM_ResourcesForInterference_offset_bounds
    mac_sch_767_mut11_bounds
    mac_sch_865_mut4_bounds
    mac_sch_904_mut8_bounds
    mac_sch_678_mut3_bounds
    mac_sch_787_mut3_bounds
    mac_sch_889_mut9_bounds
  by auto

lemma increasing_distinct: "sorted_wrt (<) (is :: int list) \<Longrightarrow> distinct is"
  by (simp add: strict_sorted_iff)

section \<open>The hooks\<close>

lemma world_matched_reads: "wd_read_filter (wd (ctx world_matched)) (f1 world_matched)"
  by (simp add: world_matched_def wd_read_filter_def)

lemma world_unmatched_reads: "\<not> wd_read_filter (wd (ctx world_unmatched)) (f1 world_unmatched)"
  by (simp add: world_unmatched_def wd_read_filter_def)

text \<open>
  C10. \<^verbatim>\<open>module_name\<close> returns the string \<^verbatim>\<open>Mediatek\<close> on every call, whatever the state of
  the world, and leaves the world (module globals, context, compiled filters, log) as it
  found it; it takes no packet buffer, so it cannot touch one.
\<close>

theorem module_name_pure: "module_name (s :: 'c world) = (''Mediatek'', s)"
  by (simp add: module_name_def)

text \<open>
  C8. \<^verbatim>\<open>setup\<close>, which has the same text in all nine modules, sets
  \<^verbatim>\<open>ctx->config->fuzzing.global_timeout\<close> to false whatever it held before, compiles the one
  filter \<^verbatim>\<open>nr-rrc.rrcSetup_element\<close> and keeps its handle in \<^verbatim>\<open>f1\<close>, leaves every other field
  of the configuration, the engine state and the log unchanged, and returns 0.
\<close>

theorem setup_effect:
  "fst (setup s) = 0
   \<and> fuzzing_global_timeout (config (ctx (snd (setup s)))) = False
   \<and> other_fields (config (ctx (snd (setup s)))) = other_fields (config (ctx s))
   \<and> wd (ctx (snd (setup s))) = wd (ctx s)
   \<and> compiled (snd (setup s)) = compiled s @ [''nr-rrc.rrcSetup_element'']
   \<and> f1 (snd (setup s)) = ''nr-rrc.rrcSetup_element''
   \<and> log_lines (snd (setup s)) = log_lines s
   \<and> snd (setup s) =
       s\<lparr>f1 := ''nr-rrc.rrcSetup_element'',
         ctx := (ctx s)\<lparr>config := (config (ctx s))\<lparr>fuzzing_global_timeout := False\<rparr>\<rparr>,
         compiled := compiled s @ [''nr-rrc.rrcSetup_element'']\<rparr>"
  by (simp add: setup_def wd_filter_def)

text \<open>
  C3. When the query of the registered filter is false, \<^verbatim>\<open>tx_post_dissection\<close> returns 0 and
  hands back the buffer and the world exactly as it received them. A failed decode is one
  such case: every filter query is then false.
\<close>

theorem tx_post_dissection_unmatched:
  "(\<not> wd_read_filter (wd (ctx s)) (f1 s) \<longrightarrow>
      tx_post_dissection body pkt_buf pkt_length s = Inr (0, pkt_buf, s))
   \<and> (dissection (wd (ctx s)) = None \<longrightarrow>
        (\<forall>f. \<not> wd_read_filter (wd (ctx s)) f)
        \<and> tx_post_dissection body pkt_buf pkt_length s = Inr (0, pkt_buf, s))"
  by (simp add: tx_post_dissection_def wd_read_filter_def)

theorem tx_post_dissection_unmatched_witness:
  "tx_post_dissection mac_sch_f71_f247 (replicate 800 0) 800 world_unmatched
     = Inr (0, replicate 800 0, world_unmatched)
   \<and> dissection (wd (ctx world_undecoded)) = None
   \<and> tx_post_dissection mac_sch_f71_f247 (replicate 800 0) 800 world_undecoded
     = Inr (0, replicate 800 0, world_undecoded)"
proof -
  have undecoded: "dissection (wd (ctx world_undecoded)) = None"
    by (simp add: world_undecoded_def)
  from tx_post_dissection_unmatched
    [of world_unmatched mac_sch_f71_f247 "replicate 800 0" 800]
  have "tx_post_dissection mac_sch_f71_f247 (replicate 800 0) 800 world_unmatched
          = Inr (0, replicate 800 0, world_unmatched)"
    using world_unmatched_reads by blast
  moreover from tx_post_dissection_unmatched
    [of world_undecoded mac_sch_f71_f247 "replicate 800 0" 800]
  have "tx_post_dissection mac_sch_f71_f247 (replicate 800 0) 800 world_undecoded
          = Inr (0, replicate 800 0, world_undecoded)"
    using undecoded by blast
  ultimately show ?thesis using undecoded by simp
qed

lemma tx_post_dissection_matched:
  "wd_read_filter (wd (ctx s)) (f1 s) \<Longrightarrow>
     tx_post_dissection body pkt_buf pkt_length s =
       (case stores body pkt_buf of
          Inl e \<Rightarrow> Inl e
        | Inr pkt_buf' \<Rightarrow>
            Inr (1, pkt_buf', s\<lparr>log_lines := log_lines s @ [''Malformed rrc setup sent!'']\<rparr>))"
  by (simp add: tx_post_dissection_def wd_log_y_def)

text \<open>
  C1 (as amended). When the filter matches, \<^verbatim>\<open>tx_post_dissection\<close> executes every store of
  the module in order and compares no index with a length; \<^verbatim>\<open>pkt_length\<close> is never read.
  If every index lies inside the buffer, all stores take effect, the one diagnostic line is
  logged and nothing else, 1 is returned, and the buffer keeps its length. If some index
  lies outside the buffer, that store is not skipped: it is an out-of-bounds store, which
  the model reports as the fault \<open>OutOfBounds\<close>.
\<close>

theorem tx_post_dissection_stores_unguarded:
  assumes "wd_read_filter (wd (ctx s)) (f1 s)"
  shows "((\<forall>(i, v) \<in> set body. 0 \<le> i \<and> i < int (length pkt_buf)) \<longrightarrow>
            tx_post_dissection body pkt_buf pkt_length s =
              Inr (1, fold (\<lambda>(i, v) b. b[nat i := v]) body pkt_buf,
                   s\<lparr>log_lines := log_lines s @ [''Malformed rrc setup sent!'']\<rparr>)
            \<and> length (fold (\<lambda>(i, v) b. b[nat i := v]) body pkt_buf) = length pkt_buf)
         \<and> (\<not> (\<forall>(i, v) \<in> set body. 0 \<le> i \<and> i < int (length pkt_buf)) \<longrightarrow>
              tx_post_dissection body pkt_buf pkt_length s = Inl OutOfBounds)"
proof (intro conjI impI)
  assume inside: "\<forall>(i, v) \<in> set body. 0 \<le> i \<and> i < int (length pkt_buf)"
  then have run: "stores body pkt_buf = Inr (fold (\<lambda>(i, v) b. b[nat i := v]) body pkt_buf)"
    by (rule stores_fold)
  with assms show "tx_post_dissection body pkt_buf pkt_length s =
      Inr (1, fold (\<lambda>(i, v) b. b[nat i := v]) body pkt_buf,
           s\<lparr>log_lines := log_lines s @ [''Malformed rrc setup sent!'']\<rparr>)"
    by (simp add: tx_post_dissection_matched)
  from run show "length (fold (\<lambda>(i, v) b. b[nat i := v]) body pkt_buf) = length pkt_buf"
    by (rule stores_length)
next
  assume "\<not> (\<forall>(i, v) \<in> set body. 0 \<le> i \<and> i < int (length pkt_buf))"
  then have "stores body pkt_buf = Inl OutOfBounds" by (rule stores_undefined)
  with assms show "tx_post_dissection body pkt_buf pkt_length s = Inl OutOfBounds"
    by (simp add: tx_post_dissection_matched)
qed

theorem tx_post_dissection_stores_unguarded_witness:
  "tx_post_dissection mac_sch_865_mut2 (replicate 800 0) 800 world_matched =
     Inr (1, fold (\<lambda>(i, v) b. b[nat i := v]) mac_sch_865_mut2 (replicate 800 0),
          world_matched\<lparr>log_lines := log_lines world_matched @ [''Malformed rrc setup sent!'']\<rparr>)
   \<and> length (fold (\<lambda>(i, v) b. b[nat i := v]) mac_sch_865_mut2 (replicate 800 0)) = 800
   \<and> tx_post_dissection mac_sch_865_mut2 (replicate 687 0) 687 world_matched = Inl OutOfBounds"
proof -
  have inside: "\<forall>(i, v) \<in> set mac_sch_865_mut2. 0 \<le> i \<and> i < int (length (replicate 800 (0::uint8_t)))"
    unfolding mac_sch_865_mut2_def by simp
  have outside: "\<not> (\<forall>(i, v) \<in> set mac_sch_865_mut2. 0 \<le> i \<and> i < int (length (replicate 687 (0::uint8_t))))"
    unfolding mac_sch_865_mut2_def by simp
  from tx_post_dissection_stores_unguarded
    [OF world_matched_reads, of mac_sch_865_mut2 "replicate 800 0" 800] inside
  have "tx_post_dissection mac_sch_865_mut2 (replicate 800 0) 800 world_matched =
     Inr (1, fold (\<lambda>(i, v) b. b[nat i := v]) mac_sch_865_mut2 (replicate 800 0),
          world_matched\<lparr>log_lines := log_lines world_matched @ [''Malformed rrc setup sent!'']\<rparr>)
     \<and> length (fold (\<lambda>(i, v) b. b[nat i := v]) mac_sch_865_mut2 (replicate 800 0))
         = length (replicate 800 (0::uint8_t))"
    by blast
  moreover from tx_post_dissection_stores_unguarded
    [OF world_matched_reads, of mac_sch_865_mut2 "replicate 687 0" 687] outside
  have "tx_post_dissection mac_sch_865_mut2 (replicate 687 0) 687 world_matched = Inl OutOfBounds"
    by blast
  ultimately show ?thesis by simp
qed

text \<open>
  C1 as stated fails. The module \<^verbatim>\<open>mac_sch_865_mut2\<close> stores to the indices 26 and 653 to
  687. On a packet of 100 bytes only the first index lies inside; the claim has the hook
  skip the other 35 stores, apply the first, warn and return. The code executes the store
  to index 653 and leaves the buffer. Given an object of 800 bytes with a \<^verbatim>\<open>pkt_length\<close> of
  100, it writes all 36 bytes, those beyond the stated length too, and logs the one
  diagnostic line and no warning.
\<close>

theorem tx_post_dissection_skips_no_store:
  "tx_post_dissection mac_sch_865_mut2 (replicate 100 0) 100 world_matched = Inl OutOfBounds
   \<and> tx_post_dissection mac_sch_865_mut2 (replicate 800 0) 100 world_matched =
       Inr (1, fold (\<lambda>(i, v) b. b[nat i := v]) mac_sch_865_mut2 (replicate 800 0),
            world_matched\<lparr>log_lines := [''Malformed rrc setup sent!'']\<rparr>)
   \<and> fold (\<lambda>(i, v) b. b[nat i := v]) mac_sch_865_mut2 (replicate 800 0) ! 653 = 0x07"
  by (simp add: tx_post_dissection_def world_matched_def wd_read_filter_def wd_log_y_def
      mac_sch_865_mut2_def store_def)

text \<open>
  C2 (as amended). When the filter matches and every index of the module's stores lies
  inside the buffer, \<^verbatim>\<open>tx_post_dissection\<close> returns 1; the buffer keeps its length; the byte
  at an index named by a store is the value of the last store to that index, and every
  other byte is the old one. The output therefore differs from the input at exactly those
  stored-to indices whose old byte was not already the stored value.
\<close>

theorem tx_post_dissection_matched_effect:
  assumes "wd_read_filter (wd (ctx s)) (f1 s)"
    and "\<forall>(i, v) \<in> set body. 0 \<le> i \<and> i < int (length pkt_buf)"
  shows "\<exists>pkt_buf' s'.
           tx_post_dissection body pkt_buf pkt_length s = Inr (1, pkt_buf', s')
           \<and> length pkt_buf' = length pkt_buf
           \<and> (\<forall>j < length pkt_buf.
                 pkt_buf' ! j =
                   (case map_of (rev body) (int j) of Some v \<Rightarrow> v | None \<Rightarrow> pkt_buf ! j))
           \<and> {j. j < length pkt_buf \<and> pkt_buf' ! j \<noteq> pkt_buf ! j} =
               {j. j < length pkt_buf
                   \<and> (\<exists>v. map_of (rev body) (int j) = Some v \<and> v \<noteq> pkt_buf ! j)}"
proof -
  from assms(2) have "\<exists>C. stores body pkt_buf = Inr C" by (simp only: stores_defined)
  then obtain C where C: "stores body pkt_buf = Inr C" by blast
  have ret: "tx_post_dissection body pkt_buf pkt_length s =
      Inr (1, C, s\<lparr>log_lines := log_lines s @ [''Malformed rrc setup sent!'']\<rparr>)"
    using assms(1) C by (simp add: tx_post_dissection_matched)
  have len: "length C = length pkt_buf" by (rule stores_length [OF C])
  have bytes: "\<forall>j < length pkt_buf.
      C ! j = (case map_of (rev body) (int j) of Some v \<Rightarrow> v | None \<Rightarrow> pkt_buf ! j)"
    using stores_nth [OF C] by blast
  have "{j. j < length pkt_buf \<and> C ! j \<noteq> pkt_buf ! j} =
      {j. j < length pkt_buf \<and> (\<exists>v. map_of (rev body) (int j) = Some v \<and> v \<noteq> pkt_buf ! j)}"
  proof (rule Collect_cong)
    fix j
    show "(j < length pkt_buf \<and> C ! j \<noteq> pkt_buf ! j) =
        (j < length pkt_buf \<and> (\<exists>v. map_of (rev body) (int j) = Some v \<and> v \<noteq> pkt_buf ! j))"
      using bytes by (cases "map_of (rev body) (int j)") auto
  qed
  with ret len bytes show ?thesis by blast
qed

theorem tx_post_dissection_matched_effect_witness:
  "\<exists>pkt_buf' s'.
     tx_post_dissection mac_sch_904_mut8 (replicate 800 0) 800 world_matched = Inr (1, pkt_buf', s')
     \<and> length pkt_buf' = 800
     \<and> pkt_buf' ! 671 = 0x47 \<and> pkt_buf' ! 685 = 0x60 \<and> pkt_buf' ! 670 = 0 \<and> pkt_buf' ! 686 = 0"
proof -
  have inside: "\<forall>(i, v) \<in> set mac_sch_904_mut8. 0 \<le> i \<and> i < int (length (replicate 800 (0::uint8_t)))"
    unfolding mac_sch_904_mut8_def by simp
  from tx_post_dissection_matched_effect
    [OF world_matched_reads inside, of 800]
  obtain C s' where ret: "tx_post_dissection mac_sch_904_mut8 (replicate 800 0) 800 world_matched = Inr (1, C, s')"
    and len: "length C = length (replicate 800 (0::uint8_t))"
    and bytes: "\<forall>j < length (replicate 800 (0::uint8_t)).
      C ! j = (case map_of (rev mac_sch_904_mut8) (int j) of Some v \<Rightarrow> v | None \<Rightarrow> replicate 800 0 ! j)"
    by blast
  have "C ! 671 = 0x47" using bytes [rule_format, of 671] by (simp add: mac_sch_904_mut8_def)
  moreover have "C ! 685 = 0x60" using bytes [rule_format, of 685] by (simp add: mac_sch_904_mut8_def)
  moreover have "C ! 670 = 0" using bytes [rule_format, of 670] by (simp add: mac_sch_904_mut8_def)
  moreover have "C ! 686 = 0" using bytes [rule_format, of 686] by (simp add: mac_sch_904_mut8_def)
  ultimately show ?thesis using ret len by auto
qed

text \<open>
  C2 as stated fails. The module \<^verbatim>\<open>mac_sch_904_mut8\<close> stores 0x47 to index 671. On a packet of
  800 zero bytes whose byte 671 is 0x47 already, the hook returns 1 and index 671, a stored-to
  index inside the buffer, holds the same byte before and after. On a packet of 100 bytes the
  filter matches as well, and the hook does not return 1: its first store is out of bounds.
\<close>

theorem tx_post_dissection_stored_byte_may_stay:
  "tx_post_dissection mac_sch_904_mut8 ((replicate 800 0)[671 := 0x47]) 800 world_matched =
     Inr (1, fold (\<lambda>(i, v) b. b[nat i := v]) mac_sch_904_mut8 ((replicate 800 0)[671 := 0x47]),
          world_matched\<lparr>log_lines := [''Malformed rrc setup sent!'']\<rparr>)
   \<and> fold (\<lambda>(i, v) b. b[nat i := v]) mac_sch_904_mut8 ((replicate 800 0)[671 := 0x47]) ! 671
       = ((replicate 800 0)[671 := 0x47]) ! 671
   \<and> tx_post_dissection mac_sch_904_mut8 (replicate 100 0) 100 world_matched = Inl OutOfBounds"
  by (simp add: tx_post_dissection_def world_matched_def wd_read_filter_def wd_log_y_def
      mac_sch_904_mut8_def store_def)

text \<open>
  C4. For every buffer and every sequence of stores whose indices all lie inside the
  buffer, the sequence runs to its end, the buffer keeps its length, and each index named
  by a store holds the value of the last store to it. The order of the stores matters
  only through such collisions: when the indices are pairwise different, every
  rearrangement of the sequence yields the same buffer.
\<close>

theorem stores_last_write_wins:
  assumes "\<forall>(i, v) \<in> set P. 0 \<le> i \<and> i < int (length B)"
  shows "\<exists>B'. stores P B = Inr B'
           \<and> length B' = length B
           \<and> (\<forall>i v. map_of (rev P) i = Some v \<longrightarrow> B' ! nat i = v)
           \<and> (\<forall>P'. distinct (map fst P) \<and> mset P' = mset P \<longrightarrow> stores P' B = Inr B')"
proof -
  from assms have "\<exists>C. stores P B = Inr C" by (simp only: stores_defined)
  then obtain C where C: "stores P B = Inr C" by blast
  have last: "C ! nat i = v" if hit: "map_of (rev P) i = Some v" for i v
  proof -
    from hit have "(i, v) \<in> set (rev P)" by (rule map_of_SomeD)
    then have "(i, v) \<in> set P" by simp
    with assms have rng: "0 \<le> i" "i < int (length B)" by auto
    then have "nat i < length B" by simp
    from stores_nth [OF C this] rng hit show ?thesis by simp
  qed
  have order: "stores P' B = Inr C" if "distinct (map fst P) \<and> mset P' = mset P" for P'
    using that stores_reordered [of P P' B] C by simp
  from C stores_length [OF C] last order show ?thesis by blast
qed

theorem stores_last_write_wins_witness:
  "(\<exists>B'. stores [(2, 0x11), (0, 0x22), (2, 0x33)] [0xa0, 0xa1, 0xa2, 0xa3] = Inr B'
     \<and> length B' = 4 \<and> B' ! 2 = 0x33 \<and> B' ! 0 = 0x22)
   \<and> stores (rev mac_sch_678_mut3) (replicate 800 0) = stores mac_sch_678_mut3 (replicate 800 0)"
proof -
  have inside: "\<forall>(i, v) \<in> set [(2, 0x11), (0, 0x22), (2, 0x33 :: uint8_t)].
      0 \<le> i \<and> i < int (length [0xa0, 0xa1, 0xa2, 0xa3 :: uint8_t])"
    by simp
  from stores_last_write_wins [OF inside]
  obtain C where run: "stores [(2, 0x11), (0, 0x22), (2, 0x33)] [0xa0, 0xa1, 0xa2, 0xa3] = Inr C"
    and len: "length C = length [0xa0, 0xa1, 0xa2, 0xa3 :: uint8_t]"
    and last: "\<forall>i v. map_of (rev [(2, 0x11), (0, 0x22), (2, 0x33 :: uint8_t)]) i = Some v
                 \<longrightarrow> C ! nat i = v"
    by blast
  have "C ! 2 = 0x33" using last [rule_format, of 2 "0x33"] by simp
  moreover have "C ! 0 = 0x22" using last [rule_format, of 0 "0x22"] by simp
  ultimately have collide: "\<exists>B'. stores [(2, 0x11), (0, 0x22), (2, 0x33)] [0xa0, 0xa1, 0xa2, 0xa3] = Inr B'
     \<and> length B' = 4 \<and> B' ! 2 = 0x33 \<and> B' ! 0 = 0x22"
    using run len by simp
  have inside': "\<forall>(i, v) \<in> set mac_sch_678_mut3. 0 \<le> i \<and> i < int (length (replicate 800 (0::uint8_t)))"
    unfolding mac_sch_678_mut3_def by simp
  have dist: "distinct (map fst mac_sch_678_mut3)"
    by (rule increasing_distinct [OF mac_sch_678_mut3_increasing])
  from stores_last_write_wins [OF inside']
  obtain D where D: "stores mac_sch_678_mut3 (replicate 800 0) = Inr D"
    and order: "\<forall>P'. distinct (map fst mac_sch_678_mut3) \<and> mset P' = mset mac_sch_678_mut3
                  \<longrightarrow> stores P' (replicate 800 0) = Inr D"
    by blast
  from order [rule_format, of "rev mac_sch_678_mut3"] dist D
  have "stores (rev mac_sch_678_mut3) (replicate 800 0) = stores mac_sch_678_mut3 (replicate 800 0)"
    by simp
  with collide show ?thesis by simp
qed

text \<open>
  C5. Running a sequence of stores on its own result changes nothing: for every buffer
  and every sequence, the second run returns what the first returned.
\<close>

theorem stores_idempotent:
  "(case stores P B of Inl e \<Rightarrow> Inl e | Inr B' \<Rightarrow> stores P B') = stores P B
   \<and> (\<forall>B'. stores P B = Inr B' \<longrightarrow> stores P B' = Inr B')"
  by (auto split: sum.splits dest: stores_twice)

theorem stores_idempotent_witness:
  "stores mac_sch_889_mut9 (replicate 800 0) =
     Inr (fold (\<lambda>(i, v) b. b[nat i := v]) mac_sch_889_mut9 (replicate 800 0))
   \<and> stores mac_sch_889_mut9 (fold (\<lambda>(i, v) b. b[nat i := v]) mac_sch_889_mut9 (replicate 800 0)) =
     Inr (fold (\<lambda>(i, v) b. b[nat i := v]) mac_sch_889_mut9 (replicate 800 0))"
proof -
  have inside: "\<forall>(i, v) \<in> set mac_sch_889_mut9. 0 \<le> i \<and> i < int (length (replicate 800 (0::uint8_t)))"
    unfolding mac_sch_889_mut9_def by simp
  have first: "stores mac_sch_889_mut9 (replicate 800 0) =
      Inr (fold (\<lambda>(i, v) b. b[nat i := v]) mac_sch_889_mut9 (replicate 800 0))"
    by (rule stores_fold [OF inside])
  with stores_idempotent [of mac_sch_889_mut9 "replicate 800 0"]
  show ?thesis by simp
qed

text \<open>
  C6. The module \<^verbatim>\<open>mac_sch_f71_f247\<close> writes the indices \<^verbatim>\<open>123 - 48\<close>, \<^verbatim>\<open>266 - 48\<close> and
  \<^verbatim>\<open>267 - 48\<close>, that is 75, 218 and 219. On a buffer of 800 bytes with the filter matching,
  \<^verbatim>\<open>tx_post_dissection\<close> returns 1, byte 75 is 0x09, byte 218 is 0x6d, byte 219 is 0x84, and
  every other byte is the one the buffer held before.
\<close>

theorem mac_sch_f71_f247_scenario:
  assumes "length pkt_buf = 800"
    and "wd_read_filter (wd (ctx s)) (f1 s)"
  shows "mac_sch_f71_f247 = [(75, 0x09), (218, 0x6d), (219, 0x84)]
         \<and> (\<exists>pkt_buf' s'.
               tx_post_dissection mac_sch_f71_f247 pkt_buf pkt_length s = Inr (1, pkt_buf', s')
               \<and> pkt_buf' = pkt_buf[75 := 0x09, 218 := 0x6d, 219 := 0x84]
               \<and> length pkt_buf' = 800
               \<and> pkt_buf' ! 75 = 0x09 \<and> pkt_buf' ! 218 = 0x6d \<and> pkt_buf' ! 219 = 0x84
               \<and> (\<forall>j < 800. j \<noteq> 75 \<and> j \<noteq> 218 \<and> j \<noteq> 219 \<longrightarrow> pkt_buf' ! j = pkt_buf ! j))"
proof -
  have table: "mac_sch_f71_f247 = [(75, 0x09), (218, 0x6d), (219, 0x84)]"
    by (simp add: mac_sch_f71_f247_def)
  have run: "stores mac_sch_f71_f247 pkt_buf = Inr (pkt_buf[75 := 0x09, 218 := 0x6d, 219 := 0x84])"
    using assms(1) by (simp add: table store_def)
  have ret: "tx_post_dissection mac_sch_f71_f247 pkt_buf pkt_length s =
      Inr (1, pkt_buf[75 := 0x09, 218 := 0x6d, 219 := 0x84],
           s\<lparr>log_lines := log_lines s @ [''Malformed rrc setup sent!'']\<rparr>)"
    using assms(2) run by (simp add: tx_post_dissection_matched)
  have bytes: "pkt_buf[75 := 0x09, 218 := 0x6d, 219 := 0x84] ! 75 = 0x09"
      "pkt_buf[75 := 0x09, 218 := 0x6d, 219 := 0x84] ! 218 = 0x6d"
      "pkt_buf[75 := 0x09, 218 := 0x6d, 219 := 0x84] ! 219 = 0x84"
    using assms(1) by simp_all
  have rest: "\<forall>j < 800. j \<noteq> 75 \<and> j \<noteq> 218 \<and> j \<noteq> 219 \<longrightarrow>
      pkt_buf[75 := 0x09, 218 := 0x6d, 219 := 0x84] ! j = pkt_buf ! j"
    by simp
  from table ret bytes rest assms(1) show ?thesis by simp
qed

theorem mac_sch_f71_f247_scenario_witness:
  "\<exists>pkt_buf' s'.
     tx_post_dissection mac_sch_f71_f247 (replicate 800 0xff) 800 world_matched = Inr (1, pkt_buf', s')
     \<and> pkt_buf' = (replicate 800 0xff)[75 := 0x09, 218 := 0x6d, 219 := 0x84]
     \<and> pkt_buf' ! 75 = 0x09 \<and> pkt_buf' ! 218 = 0x6d \<and> pkt_buf' ! 219 = 0x84
     \<and> pkt_buf' ! 0 = 0xff \<and> pkt_buf' ! 76 = 0xff \<and> pkt_buf' ! 799 = 0xff"
proof -
  have len: "length (replicate 800 (0xff :: uint8_t)) = 800" by simp
  from mac_sch_f71_f247_scenario [OF len world_matched_reads, of 800]
  obtain C s' where ret: "tx_post_dissection mac_sch_f71_f247 (replicate 800 0xff) 800 world_matched
        = Inr (1, C, s')"
    and C: "C = (replicate 800 0xff)[75 := 0x09, 218 := 0x6d, 219 := 0x84]"
    and bytes: "C ! 75 = 0x09" "C ! 218 = 0x6d" "C ! 219 = 0x84"
    and rest: "\<forall>j < 800. j \<noteq> 75 \<and> j \<noteq> 218 \<and> j \<noteq> 219 \<longrightarrow> C ! j = replicate 800 0xff ! j"
    by blast
  have "C ! 0 = 0xff" using rest [rule_format, of 0] by simp
  moreover have "C ! 76 = 0xff" using rest [rule_format, of 76] by simp
  moreover have "C ! 799 = 0xff" using rest [rule_format, of 799] by simp
  ultimately show ?thesis using ret C bytes by blast
qed

text \<open>
  C7 (as amended). On a buffer that holds every index of the module's stores, or with the
  filter not matching, the status and the bytes that \<^verbatim>\<open>tx_post_dissection\<close> returns are a
  function of the buffer and of the outcome of the filter query alone: two runs of one
  module on the same buffer with the same outcome both return, and return the same status
  and the same bytes, whatever \<^verbatim>\<open>pkt_length\<close>, configuration, compiled filters,
  registrations and log each run starts from.
\<close>

theorem tx_post_dissection_deterministic:
  assumes same: "wd_read_filter (wd (ctx s1)) (f1 s1) = wd_read_filter (wd (ctx s2)) (f1 s2)"
    and inside: "wd_read_filter (wd (ctx s1)) (f1 s1) \<longrightarrow>
                   (\<forall>(i, v) \<in> set body. 0 \<le> i \<and> i < int (length pkt_buf))"
  shows "\<exists>r pkt_buf' s1' s2'.
           tx_post_dissection body pkt_buf n1 s1 = Inr (r, pkt_buf', s1')
           \<and> tx_post_dissection body pkt_buf n2 s2 = Inr (r, pkt_buf', s2')
           \<and> r = (if wd_read_filter (wd (ctx s1)) (f1 s1) then 1 else 0)
           \<and> pkt_buf' = (if wd_read_filter (wd (ctx s1)) (f1 s1)
                          then fold (\<lambda>(i, v) b. b[nat i := v]) body pkt_buf else pkt_buf)"
proof (cases "wd_read_filter (wd (ctx s1)) (f1 s1)")
  case True
  with same have m2: "wd_read_filter (wd (ctx s2)) (f1 s2)" by simp
  from True inside have "\<forall>(i, v) \<in> set body. 0 \<le> i \<and> i < int (length pkt_buf)" by simp
  then have run: "stores body pkt_buf = Inr (fold (\<lambda>(i, v) b. b[nat i := v]) body pkt_buf)"
    by (rule stores_fold)
  have "tx_post_dissection body pkt_buf n1 s1 =
      Inr (1, fold (\<lambda>(i, v) b. b[nat i := v]) body pkt_buf,
           s1\<lparr>log_lines := log_lines s1 @ [''Malformed rrc setup sent!'']\<rparr>)"
    using True run by (simp add: tx_post_dissection_matched)
  moreover have "tx_post_dissection body pkt_buf n2 s2 =
      Inr (1, fold (\<lambda>(i, v) b. b[nat i := v]) body pkt_buf,
           s2\<lparr>log_lines := log_lines s2 @ [''Malformed rrc setup sent!'']\<rparr>)"
    using m2 run by (simp add: tx_post_dissection_matched)
  ultimately show ?thesis using True by simp
next
  case False
  with same have m2: "\<not> wd_read_filter (wd (ctx s2)) (f1 s2)" by simp
  have "tx_post_dissection body pkt_buf n1 s1 = Inr (0, pkt_buf, s1)"
    using False by (simp add: tx_post_dissection_def)
  moreover have "tx_post_dissection body pkt_buf n2 s2 = Inr (0, pkt_buf, s2)"
    using m2 by (simp add: tx_post_dissection_def)
  ultimately show ?thesis using False by simp
qed

theorem tx_post_dissection_deterministic_witness:
  "(\<exists>pkt_buf' s1' s2'.
      tx_post_dissection mac_sch_865_mut4 (replicate 800 0) 800 world_matched
        = Inr (1, pkt_buf', s1')
      \<and> tx_post_dissection mac_sch_865_mut4 (replicate 800 0) 64
          (world_matched\<lparr>compiled := [], log_lines := [''earlier line'']\<rparr>)
        = Inr (1, pkt_buf', s2')
      \<and> pkt_buf' = fold (\<lambda>(i, v) b. b[nat i := v]) mac_sch_865_mut4 (replicate 800 0))
   \<and> (\<exists>s1' s2'.
      tx_post_dissection mac_sch_865_mut4 (replicate 100 0) 100 world_unmatched
        = Inr (0, replicate 100 0, s1')
      \<and> tx_post_dissection mac_sch_865_mut4 (replicate 100 0) 100 world_undecoded
        = Inr (0, replicate 100 0, s2'))"
proof -
  have same: "wd_read_filter (wd (ctx world_matched)) (f1 world_matched) =
      wd_read_filter (wd (ctx (world_matched\<lparr>compiled := [], log_lines := [''earlier line'']\<rparr>)))
        (f1 (world_matched\<lparr>compiled := [], log_lines := [''earlier line'']\<rparr>))"
    by simp
  have inside: "wd_read_filter (wd (ctx world_matched)) (f1 world_matched) \<longrightarrow>
      (\<forall>(i, v) \<in> set mac_sch_865_mut4. 0 \<le> i \<and> i < int (length (replicate 800 (0::uint8_t))))"
    unfolding mac_sch_865_mut4_def by simp
  have same': "wd_read_filter (wd (ctx world_unmatched)) (f1 world_unmatched) =
      wd_read_filter (wd (ctx world_undecoded)) (f1 world_undecoded)"
    by (simp add: world_unmatched_def world_undecoded_def wd_read_filter_def)
  have inside': "wd_read_filter (wd (ctx world_unmatched)) (f1 world_unmatched) \<longrightarrow>
      (\<forall>(i, v) \<in> set mac_sch_865_mut4. 0 \<le> i \<and> i < int (length (replicate 100 (0::uint8_t))))"
    using world_unmatched_reads by simp
  from tx_post_dissection_deterministic [OF same inside, of 800 64]
  have first: "\<exists>pkt_buf' s1' s2'.
      tx_post_dissection mac_sch_865_mut4 (replicate 800 0) 800 world_matched
        = Inr (1, pkt_buf', s1')
      \<and> tx_post_dissection mac_sch_865_mut4 (replicate 800 0) 64
          (world_matched\<lparr>compiled := [], log_lines := [''earlier line'']\<rparr>)
        = Inr (1, pkt_buf', s2')
      \<and> pkt_buf' = fold (\<lambda>(i, v) b. b[nat i := v]) mac_sch_865_mut4 (replicate 800 0)"
    using world_matched_reads by auto
  from tx_post_dissection_deterministic [OF same' inside', of 100 100]
  have second: "\<exists>s1' s2'.
      tx_post_dissection mac_sch_865_mut4 (replicate 100 0) 100 world_unmatched
        = Inr (0, replicate 100 0, s1')
      \<and> tx_post_dissection mac_sch_865_mut4 (replicate 100 0) 100 world_undecoded
        = Inr (0, replicate 100 0, s2')"
    using world_unmatched_reads by auto
  from first second show ?thesis by (rule conjI)
qed

text \<open>
  C7 as stated fails. The module \<^verbatim>\<open>mac_sch_865_mut4\<close> stores to index 26 and then to index
  \<^verbatim>\<open>701 - 48\<close>. On a packet of 100 bytes with the filter matching, the first store lies
  inside the buffer and the second does not. C gives a run with such a store no defined
  status and no defined bytes, so two runs on this one input need not agree; the hook
  has no result here, only the fault.
\<close>

theorem tx_post_dissection_short_packet_undefined:
  "store (replicate 100 0) (74 - 48) 0x9a = Inr ((replicate 100 0)[26 := 0x9a])
   \<and> store ((replicate 100 0)[26 := 0x9a]) (701 - 48) 0x0d = Inl OutOfBounds
   \<and> tx_post_dissection mac_sch_865_mut4 (replicate 100 0) 100 world_matched = Inl OutOfBounds"
  by (simp add: tx_post_dissection_def world_matched_def wd_read_filter_def wd_log_y_def
      mac_sch_865_mut4_def store_def)

text \<open>With pairwise different indices it does not matter which store to an index is last.\<close>

lemma distinct_map_of_rev:
  assumes "distinct (map fst T)"
  shows "map_of (rev T) = map_of T"
proof -
  have "distinct (map fst (rev T))" using assms by (simp add: rev_map [symmetric])
  moreover have "set (rev T) = set T" by simp
  ultimately show ?thesis using assms map_of_inject_set [of "rev T" T] by blast
qed


lemma modules_length: "length modules = 9"
  by (simp add: modules_def)


text \<open>
  C9. In each of the nine modules the indices of the stores, \<^verbatim>\<open>literal - 48\<close>, increase
  strictly from one store to the next and lie between 26 and 687. So no two stores of a
  module name the same index, the value found for an index does not depend on which of
  its stores is last, and the stores of a module, run in any order, yield the same
  buffer.
\<close>

theorem modules_indices_increasing:
  "\<forall>T \<in> set modules.
     sorted_wrt (<) (map fst T)
     \<and> (\<forall>i \<in> set (map fst T). 26 \<le> i \<and> i \<le> 687)
     \<and> distinct (map fst T)
     \<and> map_of (rev T) = map_of T
     \<and> (\<forall>P' B. mset P' = mset T \<longrightarrow> stores P' B = stores T B)"
proof
  fix T assume T: "T \<in> set modules"
  have inc: "sorted_wrt (<) (map fst T)" by (rule modules_increasing [OF T])
  have dist: "distinct (map fst T)" by (rule increasing_distinct [OF inc])
  have last: "map_of (rev T) = map_of T" by (rule distinct_map_of_rev [OF dist])
  have bounds: "\<forall>i \<in> set (map fst T). 26 \<le> i \<and> i \<le> 687" by (rule modules_bounds [OF T])
  have order: "\<forall>P' B. mset P' = mset T \<longrightarrow> stores P' B = stores T B"
    using stores_reordered [OF dist] by blast
  show "sorted_wrt (<) (map fst T)
     \<and> (\<forall>i \<in> set (map fst T). 26 \<le> i \<and> i \<le> 687)
     \<and> distinct (map fst T)
     \<and> map_of (rev T) = map_of T
     \<and> (\<forall>P' B. mset P' = mset T \<longrightarrow> stores P' B = stores T B)"
    by (intro conjI inc bounds dist last order)
qed


theorem modules_indices_increasing_witness:
  "length modules = 9
   \<and> sorted_wrt (<) (map fst mac_sch_767_mut11)
   \<and> distinct (map fst mac_sch_csi_IM_ResourcesForInterference_offset)
   \<and> stores (rev mac_sch_767_mut11) (replicate 800 0) = stores mac_sch_767_mut11 (replicate 800 0)
   \<and> stores (rev mac_sch_767_mut11) (replicate 600 0) = stores mac_sch_767_mut11 (replicate 600 0)"
proof -
  have a: "mac_sch_767_mut11 \<in> set modules"
    and b: "mac_sch_csi_IM_ResourcesForInterference_offset \<in> set modules"
    by (simp_all add: modules_def)
  have perm: "mset (rev mac_sch_767_mut11) = mset mac_sch_767_mut11" by simp
  from modules_indices_increasing [rule_format, OF a]
  have inc: "sorted_wrt (<) (map fst mac_sch_767_mut11)"
    and order: "\<forall>P' B. mset P' = mset mac_sch_767_mut11 \<longrightarrow> stores P' B = stores mac_sch_767_mut11 B"
    by blast+
  from modules_indices_increasing [rule_format, OF b]
  have dist: "distinct (map fst mac_sch_csi_IM_ResourcesForInterference_offset)"
    by blast
  from order perm have "stores (rev mac_sch_767_mut11) B = stores mac_sch_767_mut11 B" for B
    by blast
  with modules_length inc dist show ?thesis by blast
qed

end
